theory Spec2Isabelle
  imports Complex_Main "HOL-Library.AList"
begin

section \<open>Data model of the voice attendance application\<close>

text \<open>
  The application is one Python script (\<^verbatim>\<open>main.py\<close>) that Streamlit executes from the top
  on every user interaction. Its durable state is three kinds of files under
  \<^verbatim>\<open>data/\<close>: the students directory (\<^verbatim>\<open>students.json\<close>), one \<^verbatim>\<open>.npy\<close> file per
  enrolled voice embedding, and the attendance ledger (\<^verbatim>\<open>attendance.json\<close>). Its only
  in-memory state is the global dictionary \<^verbatim>\<open>students\<close>, loaded at the top of the script.

  A Python \<^verbatim>\<open>dict\<close> keeps its keys in insertion order and the recognition loop depends on
  that order, so dictionaries are association lists: \<open>AList.update\<close> overwrites a present
  key in place and appends an absent one, as \<^verbatim>\<open>d[k] = v\<close> does; \<open>AList.delete\<close> is
  \<^verbatim>\<open>del d[k]\<close>; \<open>map_of\<close> is the lookup.

  An embedding is a vector of floating-point numbers. The model computes over the reals:
  it follows the control flow of the script, not the rounding of its arithmetic.
\<close>

type_synonym vec = "real list"

text \<open>The dictionary stored per student (lines 106-113); the key \<^verbatim>\<open>div\<close> is the field \<open>div'\<close>.\<close>

record student =
  name :: string
  std :: string
  div' :: string
  year :: string
  roll_no :: string
  emergency_contact :: string

type_synonym students_dict = "(string \<times> student) list"

text \<open>The ledger: date (ISO string) to the list of names marked present that day.\<close>

type_synonym attendance_dict = "(string \<times> string list) list"

text \<open>
  The exceptions the modelled code can raise: \<open>OSError\<close> when a file cannot be opened
  for writing, \<open>FileNotFoundError\<close> from \<^verbatim>\<open>np.load\<close> on a missing file, \<open>ValueError\<close> from
  the cosine distance on vectors of different length, \<open>KeyError\<close> from subscripting a
  dictionary at an absent key.
\<close>

datatype error = OSError | FileNotFoundError | ValueError | KeyError

text \<open>
  The state: the in-memory \<^verbatim>\<open>students\<close> dictionary and the files. A file that does not
  exist is \<open>None\<close>. \<open>writable p\<close> tells whether opening path \<open>p\<close> for writing succeeds;
  where it does not, the write raises and leaves the file as it was.
\<close>

record world =
  students :: students_dict
  students_file :: "students_dict option"
  embed_files :: "string \<rightharpoonup> vec"
  attendance_file :: "attendance_dict option"
  writable :: "string \<Rightarrow> bool"

text \<open>
  A statement either completes, with a value and the new state, or raises. No handler of
  the script catches an exception, so a raise ends the run; the state it leaves is kept.
\<close>

datatype 'a outcome = Done 'a world | Raised error world

fun world_of :: "'a outcome \<Rightarrow> world" where
  "world_of (Done x w) = w"
| "world_of (Raised e w) = w"

section \<open>Paths (lines 35-38)\<close>

text \<open>\<^verbatim>\<open>os.path.join\<close> on POSIX: an absolute second component replaces the first.\<close>

definition path_join :: "string \<Rightarrow> string \<Rightarrow> string" where
  "path_join a b =
     (if b \<noteq> [] \<and> hd b = CHR ''/'' then b
      else if a = [] \<or> last a = CHR ''/'' then a @ b
      else a @ ''/'' @ b)"

definition DB_PATH :: string where
  "DB_PATH = ''data''"

definition EMBED_DIR :: string where
  "EMBED_DIR = path_join DB_PATH ''embeddings''"

definition ATTENDANCE_FILE :: string where
  "ATTENDANCE_FILE = path_join DB_PATH ''attendance.json''"

definition STUDENTS_FILE :: string where
  "STUDENTS_FILE = path_join DB_PATH ''students.json''"

definition embedding_path :: "string \<Rightarrow> string" where
  "embedding_path n = path_join EMBED_DIR (n @ ''.npy'')"

section \<open>Persistence helpers (lines 42-77)\<close>

text \<open>Lines 43-47, run at the start of every execution of the script.\<close>

definition load_students :: "world \<Rightarrow> world" where
  "load_students w =
     w\<lparr>students := (case students_file w of Some s \<Rightarrow> s | None \<Rightarrow> [])\<rparr>"

definition save_students :: "world \<Rightarrow> unit outcome" where
  "save_students w =
     (if writable w STUDENTS_FILE
      then Done () (w\<lparr>students_file := Some (students w)\<rparr>)
      else Raised OSError w)"

definition load_embedding :: "string \<Rightarrow> world \<Rightarrow> error + vec" where
  "load_embedding n w =
     (case embed_files w (embedding_path n) of
        None \<Rightarrow> Inl FileNotFoundError
      | Some emb \<Rightarrow> Inr emb)"

definition save_embedding :: "string \<Rightarrow> vec \<Rightarrow> world \<Rightarrow> unit outcome" where
  "save_embedding n emb w =
     (if writable w (embedding_path n)
      then Done () (w\<lparr>embed_files := (embed_files w)(embedding_path n \<mapsto> emb)\<rparr>)
      else Raised OSError w)"

text \<open>
  \<^verbatim>\<open>attendance[today]\<close>: subscripting raises \<open>KeyError\<close> at an absent key.
\<close>

definition getitem :: "('k \<times> 'v) list \<Rightarrow> 'k \<Rightarrow> error + 'v" where
  "getitem d k = (case map_of d k of None \<Rightarrow> Inl KeyError | Some v \<Rightarrow> Inr v)"

text \<open>
  Lines 61-69 of \<^verbatim>\<open>mark_attendance\<close>, on the dictionary read from the file: create the
  date's list when the date is absent, append the name when the list does not hold it.
  \<open>today\<close> is \<^verbatim>\<open>date.today().isoformat()\<close>, taken as a parameter.
\<close>

definition mark_dict :: "string \<Rightarrow> string \<Rightarrow> attendance_dict \<Rightarrow> error + attendance_dict" where
  "mark_dict today n attendance =
     (let attendance1 =
            (if today \<notin> fst ` set attendance
             then AList.update today [] attendance else attendance)
      in case getitem attendance1 today of
           Inl e \<Rightarrow> Inl e
         | Inr names \<Rightarrow>
             if n \<notin> set names
             then Inr (AList.update today (names @ [n]) attendance1)
             else Inr attendance1)"

definition mark_attendance :: "string \<Rightarrow> string \<Rightarrow> world \<Rightarrow> unit outcome" where
  "mark_attendance today n w =
     (case mark_dict today n
             (case attendance_file w of None \<Rightarrow> [] | Some a \<Rightarrow> a) of
        Inl e \<Rightarrow> Raised e w
      | Inr attendance \<Rightarrow>
          if writable w ATTENDANCE_FILE
          then Done () (w\<lparr>attendance_file := Some attendance\<rparr>)
          else Raised OSError w)"

definition get_attendance :: "world \<Rightarrow> attendance_dict" where
  "get_attendance w = (case attendance_file w of None \<Rightarrow> [] | Some a \<Rightarrow> a)"

text \<open>
  The loop of the "Show Attendance" page (lines 159-160) visits, for each
  \<^verbatim>\<open>date_key, names\<close> of the ledger, every name of \<open>names\<close>. \<open>names_for d data\<close> is the
  names it visits under the date key \<open>d\<close>, in order: what the ledger holds for that date.
\<close>

fun names_for :: "string \<Rightarrow> attendance_dict \<Rightarrow> string list" where
  "names_for d [] = []"
| "names_for d ((date_key, names) # data) =
     (if date_key = d then names @ names_for d data else names_for d data)"

text \<open>A run of \<^verbatim>\<open>mark_attendance\<close> calls, each with its date and name, one after the other.\<close>

fun mark_all :: "(string \<times> string) list \<Rightarrow> world \<Rightarrow> world" where
  "mark_all [] w = w"
| "mark_all ((d, n) # calls) w = mark_all calls (world_of (mark_attendance d n w))"

text \<open>Within each date of the ledger no name occurs twice.\<close>

definition no_duplicates :: "attendance_dict \<Rightarrow> bool" where
  "no_duplicates a = (\<forall>(d, names) \<in> set a. distinct names)"

section \<open>Matching (lines 139-149)\<close>

text \<open>
  \<^verbatim>\<open>scipy.spatial.distance.cosine(u, v)\<close>, a library function: one minus the dot product
  over the product of the norms, and \<open>ValueError\<close> for vectors of different length.
\<close>

definition dot :: "vec \<Rightarrow> vec \<Rightarrow> real" where
  "dot u v = sum_list (map2 (*) u v)"

definition cosine :: "vec \<Rightarrow> vec \<Rightarrow> error + real" where
  "cosine u v =
     (if length u \<noteq> length v then Inl ValueError
      else Inr (1 - dot u v / sqrt (dot u u * dot v v)))"

text \<open>
  What the page shows after one pass: the success message with the recognised name and
  its similarity, or the "No match found" warning.
\<close>

datatype match_result = Matched string real | NoMatch

text \<open>
  The \<^verbatim>\<open>for name, data in students.items()\<close> loop with its \<^verbatim>\<open>break\<close>; the empty list is
  the loop running out with \<^verbatim>\<open>matched\<close> still false.
\<close>

fun recognize_loop :: "string \<Rightarrow> students_dict \<Rightarrow> vec \<Rightarrow> world \<Rightarrow> match_result outcome" where
  "recognize_loop today [] rec_emb w = Done NoMatch w"
| "recognize_loop today ((n, data) # items) rec_emb w =
     (case load_embedding n w of
        Inl e \<Rightarrow> Raised e w
      | Inr ref_emb \<Rightarrow>
          (case cosine ref_emb rec_emb of
             Inl e \<Rightarrow> Raised e w
           | Inr cos_dist \<Rightarrow>
               (let sim = 1 - cos_dist in
                if sim > 0.75 then
                  (case mark_attendance today n w of
                     Raised e w' \<Rightarrow> Raised e w'
                   | Done u w' \<Rightarrow> Done (Matched n sim) w')
                else recognize_loop today items rec_emb w)))"

definition recognize :: "string \<Rightarrow> vec \<Rightarrow> world \<Rightarrow> match_result outcome" where
  "recognize today rec_emb w = recognize_loop today (students w) rec_emb w"

text \<open>The similarity the loop computes for a stored and a recorded vector of equal length.\<close>

definition similarity :: "vec \<Rightarrow> vec \<Rightarrow> real" where
  "similarity ref_emb rec_emb =
     1 - (1 - dot ref_emb rec_emb / sqrt (dot ref_emb ref_emb * dot rec_emb rec_emb))"

text \<open>
  No candidate of the list matches: each has a stored vector of the length of the
  recorded one, and its similarity is at most the threshold.
\<close>

definition no_match_among :: "students_dict \<Rightarrow> vec \<Rightarrow> world \<Rightarrow> bool" where
  "no_match_among items rec_emb w =
     (\<forall>(n, data) \<in> set items.
        case load_embedding n w of
          Inl e \<Rightarrow> False
        | Inr ref_emb \<Rightarrow> length ref_emb = length rec_emb \<and> similarity ref_emb rec_emb \<le> 0.75)"

section \<open>Enrollment (lines 97-116) and deletion (lines 190-194)\<close>

text \<open>
  Lines 105-114: the embedding file is written first, then the in-memory dictionary is
  updated and written to \<^verbatim>\<open>students.json\<close>. The embedding \<open>emb\<close> is what recording and
  the encoder produced (lines 98-104).
\<close>

definition enroll ::
  "string \<Rightarrow> string \<Rightarrow> string \<Rightarrow> string \<Rightarrow> string \<Rightarrow> string \<Rightarrow> vec \<Rightarrow> world \<Rightarrow> unit outcome" where
  "enroll n s d y r c emb w =
     (case save_embedding n emb w of
        Raised e w1 \<Rightarrow> Raised e w1
      | Done u w1 \<Rightarrow>
          save_students
            (w1\<lparr>students :=
                  AList.update n
                    \<lparr>name = n, std = s, div' = d, year = y, roll_no = r,
                     emergency_contact = c\<rparr>
                    (students w1)\<rparr>))"

text \<open>Line 97: nothing happens unless the button is pressed and the name is not empty.\<close>

definition enroll_button ::
  "bool \<Rightarrow> string \<Rightarrow> string \<Rightarrow> string \<Rightarrow> string \<Rightarrow> string \<Rightarrow> string \<Rightarrow> vec \<Rightarrow> world
     \<Rightarrow> unit outcome" where
  "enroll_button pressed n s d y r c emb w =
     (if pressed \<and> n \<noteq> [] then enroll n s d y r c emb w else Done () w)"

text \<open>
  Lines 190-194, for the \<^verbatim>\<open>info\<close> whose delete button was pressed. After a successful
  save, \<^verbatim>\<open>st.experimental_rerun()\<close> restarts the script, which loads the dictionary again.
\<close>

definition delete_button :: "student \<Rightarrow> world \<Rightarrow> unit outcome" where
  "delete_button info w =
     (if name info \<in> fst ` set (students w) then
        (case save_students (w\<lparr>students := AList.delete (name info) (students w)\<rparr>) of
           Raised e w1 \<Rightarrow> Raised e w1
         | Done u w1 \<Rightarrow> Done () (load_students w1))
      else Done () w)"

text \<open>Every record of the directory is stored under its own \<^verbatim>\<open>name\<close> field.\<close>

definition keyed_by_name :: "students_dict \<Rightarrow> bool" where
  "keyed_by_name ss = (\<forall>(k, info) \<in> set ss. name info = k)"

text \<open>The same of the dictionary in memory and of the one in \<^verbatim>\<open>students.json\<close>.\<close>

definition directory_keyed :: "world \<Rightarrow> bool" where
  "directory_keyed w =
     (keyed_by_name (students w) \<and>
      (case students_file w of None \<Rightarrow> True | Some s \<Rightarrow> keyed_by_name s))"

section \<open>Example states\<close>

text \<open>A new installation: no file exists yet and every path can be written.\<close>

definition new_install :: world where
  "new_install =
     \<lparr>students = [], students_file = None, embed_files = Map.empty,
      attendance_file = None, writable = (\<lambda>p. True)\<rparr>"

text \<open>The ledger after "A" was marked present on 2024-01-01.\<close>

definition a_present :: world where
  "a_present = new_install\<lparr>attendance_file := Some [(''2024-01-01'', [''A''])]\<rparr>"

text \<open>The record of a student of class 5 A with the given name.\<close>

definition blank :: "string \<Rightarrow> student" where
  "blank n = \<lparr>name = n, std = ''5'', div' = ''A'', year = ''2024'', roll_no = ''1'',
     emergency_contact = ''100''\<rparr>"

text \<open>
  The state after enrolling the given students, each with the given embedding, in the
  order of the list, on a new installation.
\<close>

definition enrolled :: "(string \<times> vec) list \<Rightarrow> world" where
  "enrolled embs =
     \<lparr>students = map (\<lambda>(n, emb). (n, blank n)) embs,
      students_file = Some (map (\<lambda>(n, emb). (n, blank n)) embs),
      embed_files = map_of (map (\<lambda>(n, emb). (embedding_path n, emb)) embs),
      attendance_file = None, writable = (\<lambda>p. True)\<rparr>"

text \<open>
  Three students and the recorded vector \<open>[1, 0]\<close>: "A" scores 0, "B" scores 0.8 and "C"
  scores 1.
\<close>

definition three_students :: world where
  "three_students = enrolled [(''A'', [0, 1]), (''B'', [4, 3]), (''C'', [1, 0])]"

text \<open>The same with a vector of three components stored for "B", and for "C".\<close>

definition mismatch_second :: world where
  "mismatch_second = enrolled [(''A'', [0, 1]), (''B'', [1, 0, 0]), (''C'', [1, 0])]"

definition mismatch_last :: world where
  "mismatch_last = enrolled [(''A'', [0, 1]), (''B'', [1, 0]), (''C'', [1, 0, 0])]"

text \<open>A new installation on which \<^verbatim>\<open>students.json\<close> cannot be written.\<close>

definition students_locked :: world where
  "students_locked = new_install\<lparr>writable := (\<lambda>p. p \<noteq> STUDENTS_FILE)\<rparr>"

section \<open>The attendance ledger\<close>

subsection \<open>What one call does to the dictionary\<close>

lemma key_absent: "(k \<notin> fst ` set a) = (map_of a k = None)"
  by (simp add: map_of_eq_None_iff)

lemma mark_dict_eq:
  "mark_dict today n a =
     Inr (case map_of a today of
            None \<Rightarrow> AList.update today [n] a
          | Some names \<Rightarrow> if n \<in> set names then a else AList.update today (names @ [n]) a)"
  by (cases "map_of a today")
     (simp_all add: mark_dict_def getitem_def key_absent update_conv')

lemma mark_dict_lookup_today:
  "mark_dict today n a = Inr a' \<Longrightarrow>
     map_of a' today =
       Some (case map_of a today of
               None \<Rightarrow> [n]
             | Some names \<Rightarrow> if n \<in> set names then names else names @ [n])"
  by (cases "map_of a today") (auto simp: mark_dict_eq update_conv')

lemma mark_dict_lookup_other:
  "mark_dict today n a = Inr a' \<Longrightarrow> d \<noteq> today \<Longrightarrow> map_of a' d = map_of a d"
  by (cases "map_of a today") (auto simp: mark_dict_eq update_conv')

lemma mark_dict_recorded:
  "map_of a today = Some names \<Longrightarrow> n \<in> set names \<Longrightarrow> mark_dict today n a = Inr a"
  by (simp add: mark_dict_eq)

lemma mark_dict_twice:
  "mark_dict today n a = Inr a' \<Longrightarrow> mark_dict today n a' = Inr a'"
  by (cases "map_of a today") (auto simp: mark_dict_eq update_conv')

lemma keys_update: "fst ` set (AList.update k v a) = insert k (fst ` set a)"
  by (induction a) auto

lemma mark_dict_keys:
  assumes "mark_dict today n a = Inr a'"
  shows "fst ` set a' = insert today (fst ` set a)"
proof (cases "map_of a today")
  case None
  with assms have "a' = AList.update today [n] a"
    by (simp add: mark_dict_eq)
  then show ?thesis by (simp add: keys_update)
next
  case (Some names)
  then have "today \<in> fst ` set a"
    using key_absent[of today a] by simp
  then have k: "insert today (fst ` set a) = fst ` set a" by blast
  from assms Some have "a' = a \<or> a' = AList.update today (names @ [n]) a"
    by (simp add: mark_dict_eq split: if_splits)
  then show ?thesis
  proof
    assume "a' = a"
    with k show ?thesis by simp
  next
    assume "a' = AList.update today (names @ [n]) a"
    then show ?thesis by (simp add: keys_update)
  qed
qed

lemma no_duplicates_update:
  "no_duplicates a \<Longrightarrow> distinct names \<Longrightarrow> no_duplicates (AList.update d names a)"
  by (induction a) (auto simp: no_duplicates_def)

lemma mark_dict_no_duplicates:
  "no_duplicates a \<Longrightarrow> mark_dict today n a = Inr a' \<Longrightarrow> no_duplicates a'"
proof (cases "map_of a today")
  case None
  assume "no_duplicates a" "mark_dict today n a = Inr a'"
  with None show ?thesis by (auto simp: mark_dict_eq intro: no_duplicates_update)
next
  case (Some names)
  assume a: "no_duplicates a" "mark_dict today n a = Inr a'"
  from Some have "(today, names) \<in> set a" by (rule map_of_SomeD)
  with a(1) have "distinct names" by (auto simp: no_duplicates_def)
  with a Some show ?thesis by (auto simp: mark_dict_eq intro: no_duplicates_update split: if_splits)
qed


subsection \<open>What one call does to the file\<close>

lemma mark_attendance_cases:
  obtains a' where "writable w ATTENDANCE_FILE" "mark_dict today n (get_attendance w) = Inr a'"
      "mark_attendance today n w = Done () (w\<lparr>attendance_file := Some a'\<rparr>)"
  | "\<not> writable w ATTENDANCE_FILE" "mark_attendance today n w = Raised OSError w"
  by (cases "writable w ATTENDANCE_FILE")
     (auto simp: mark_attendance_def get_attendance_def mark_dict_eq)

lemma mark_attendance_get:
  "get_attendance (world_of (mark_attendance today n w)) = get_attendance w
   \<or> mark_dict today n (get_attendance w) = Inr (get_attendance (world_of (mark_attendance today n w)))"
  by (cases rule: mark_attendance_cases[of w today n]) (simp_all add: get_attendance_def)

lemma mark_attendance_keeps_no_duplicates:
  "no_duplicates (get_attendance w) \<Longrightarrow>
     no_duplicates (get_attendance (world_of (mark_attendance today n w)))"
  using mark_attendance_get[of today n w]
  by (auto dest: mark_dict_no_duplicates)

lemma mark_all_keeps_no_duplicates:
  "no_duplicates (get_attendance w) \<Longrightarrow> no_duplicates (get_attendance (mark_all calls w))"
proof (induction calls arbitrary: w)
  case Nil
  then show ?case by simp
next
  case (Cons c calls)
  obtain d m where c: "c = (d, m)" by (cases c)
  from Cons.prems have "no_duplicates (get_attendance (world_of (mark_attendance d m w)))"
    by (rule mark_attendance_keeps_no_duplicates)
  then show ?case unfolding c by (simp add: Cons.IH)
qed

lemma names_for_absent: "d \<notin> fst ` set a \<Longrightarrow> names_for d a = []"
  by (induction a) auto

lemma mark_all_keys:
  "fst ` set (get_attendance (mark_all calls w)) \<subseteq> fst ` set (get_attendance w) \<union> fst ` set calls"
proof (induction calls arbitrary: w)
  case Nil
  show ?case by simp
next
  case (Cons c calls)
  obtain d m where c: "c = (d, m)" by (cases c)
  have "fst ` set (get_attendance (world_of (mark_attendance d m w)))
          \<subseteq> insert d (fst ` set (get_attendance w))"
    using mark_attendance_get[of d m w] by (auto dest!: mark_dict_keys)
  with Cons.IH[of "world_of (mark_attendance d m w)"] show ?case
    unfolding c by auto
qed

subsection \<open>Idempotence\<close>

text \<open>
  Claim C5. \<^verbatim>\<open>mark_attendance\<close> is idempotent. Calling it twice with the same date and
  name leaves the state that calling it once leaves. When the ledger file can be written
  the call raises nothing, the first time and the second; and when the name is already
  in the date's list the call changes nothing at all.
\<close>

theorem mark_attendance_idempotent:
  "world_of (mark_attendance today n (world_of (mark_attendance today n w)))
     = world_of (mark_attendance today n w)
   \<and> (writable w ATTENDANCE_FILE \<longrightarrow>
        (\<exists>w1. mark_attendance today n w = Done () w1 \<and> mark_attendance today n w1 = Done () w1))
   \<and> (writable w ATTENDANCE_FILE \<and> map_of (get_attendance w) today = Some names \<and> n \<in> set names \<longrightarrow>
        mark_attendance today n w = Done () w)"
proof (cases rule: mark_attendance_cases[of w today n])
  case (1 a')
  let ?w1 = "w\<lparr>attendance_file := Some a'\<rparr>"
  from 1(2) have "mark_dict today n a' = Inr a'" by (rule mark_dict_twice)
  with 1(1) have again: "mark_attendance today n ?w1 = Done () ?w1"
    by (simp add: mark_attendance_def)
  have rec: "mark_attendance today n w = Done () w"
    if "map_of (get_attendance w) today = Some names" "n \<in> set names"
  proof -
    from that have "mark_dict today n (get_attendance w) = Inr (get_attendance w)"
      by (rule mark_dict_recorded)
    with 1(2) have "a' = get_attendance w" by simp
    moreover from that(1) obtain a where "attendance_file w = Some a"
      by (cases "attendance_file w") (auto simp: get_attendance_def)
    ultimately show ?thesis using 1(3) by (simp add: get_attendance_def)
  qed
  from 1(3) again rec show ?thesis by auto
next
  case 2
  then show ?thesis by simp
qed


theorem mark_attendance_idempotent_witness:
  "writable a_present ATTENDANCE_FILE
   \<and> map_of (get_attendance a_present) ''2024-01-01'' = Some [''A''] \<and> ''A'' \<in> set [''A'']
   \<and> mark_attendance ''2024-01-01'' ''A'' a_present = Done () a_present
   \<and> world_of (mark_attendance ''2024-01-01'' ''A''
                 (world_of (mark_attendance ''2024-01-01'' ''A'' a_present)))
       = world_of (mark_attendance ''2024-01-01'' ''A'' a_present)"
  using mark_attendance_idempotent [of "''2024-01-01''" "''A''" a_present "[''A'']"]
  by (simp add: a_present_def new_install_def get_attendance_def)

subsection \<open>No name twice within a date\<close>

text \<open>
  Claim C6. If no date of the ledger lists a name twice before a call of
  \<^verbatim>\<open>mark_attendance\<close>, none does after it; and so after any run of calls.
\<close>

theorem mark_attendance_no_duplicates:
  assumes "no_duplicates (get_attendance w)"
  shows "no_duplicates (get_attendance (world_of (mark_attendance today n w)))
       \<and> no_duplicates (get_attendance (mark_all calls w))"
  using assms
  by (simp add: mark_attendance_keeps_no_duplicates mark_all_keeps_no_duplicates)

theorem mark_attendance_no_duplicates_witness:
  "no_duplicates (get_attendance a_present)
   \<and> no_duplicates (get_attendance (world_of (mark_attendance ''2024-01-01'' ''A'' a_present)))
   \<and> no_duplicates
        (get_attendance (mark_all [(''2024-01-01'', ''B''), (''2024-01-02'', ''A'')] a_present))"
proof -
  have h: "no_duplicates (get_attendance a_present)"
    by (simp add: a_present_def new_install_def get_attendance_def no_duplicates_def)
  from h mark_attendance_no_duplicates
            [OF h, of "''2024-01-01''" "''A''" "[(''2024-01-01'', ''B''), (''2024-01-02'', ''A'')]"]
  show ?thesis by blast
qed

subsection \<open>Only appending\<close>

text \<open>
  Claim C7. A call of \<^verbatim>\<open>mark_attendance\<close> for a date leaves the entry of every other date
  as it was, and the names already listed for the date stay listed, in their order: the
  new list is the old one, possibly with names after it.
\<close>

theorem mark_attendance_appends_only:
  "(d \<noteq> today \<longrightarrow>
      map_of (get_attendance (world_of (mark_attendance today n w))) d = map_of (get_attendance w) d)
   \<and> (map_of (get_attendance w) today = Some names \<longrightarrow>
      (\<exists>rest. map_of (get_attendance (world_of (mark_attendance today n w))) today
                 = Some (names @ rest)))"
  using mark_attendance_get[of today n w]
  by (auto dest: mark_dict_lookup_other mark_dict_lookup_today)

theorem mark_attendance_appends_only_witness:
  "''2024-01-02'' \<noteq> ''2024-01-01''
   \<and> map_of (get_attendance (world_of (mark_attendance ''2024-01-01'' ''B'' a_present)))
         ''2024-01-02''
       = map_of (get_attendance a_present) ''2024-01-02''
   \<and> map_of (get_attendance a_present) ''2024-01-01'' = Some [''A'']
   \<and> (\<exists>rest. map_of (get_attendance (world_of (mark_attendance ''2024-01-01'' ''B'' a_present)))
                 ''2024-01-01''
               = Some ([''A''] @ rest))"
  using mark_attendance_appends_only
          [of "''2024-01-02''" "''2024-01-01''" "''B''" a_present "[''A'']"]
  by (simp add: a_present_def new_install_def get_attendance_def)

subsection \<open>Reading a date without entries\<close>

text \<open>
  Claim C9. Reading the ledger raises nothing, and a date without recorded activity has
  no names: when the ledger file does not exist \<^verbatim>\<open>get_attendance\<close> returns the empty
  dictionary; a date that is not a key of the ledger has no names; and after any run of
  \<^verbatim>\<open>mark_attendance\<close> calls that starts without a ledger file, a date that none of the calls
  was for has no names.
\<close>

theorem get_attendance_absent_date:
  "(attendance_file w = None \<longrightarrow> get_attendance w = [])
   \<and> (d \<notin> fst ` set (get_attendance w) \<longrightarrow> names_for d (get_attendance w) = [])
   \<and> (attendance_file w = None \<and> d \<notin> fst ` set calls \<longrightarrow>
        names_for d (get_attendance (mark_all calls w)) = [])"
proof (intro conjI impI)
  show "get_attendance w = []" if "attendance_file w = None"
    using that by (simp add: get_attendance_def)
  show "names_for d (get_attendance w) = []" if "d \<notin> fst ` set (get_attendance w)"
    using that by (rule names_for_absent)
  show "names_for d (get_attendance (mark_all calls w)) = []"
    if "attendance_file w = None \<and> d \<notin> fst ` set calls"
  proof -
    from that have "get_attendance w = []" by (simp add: get_attendance_def)
    with that mark_all_keys[of calls w]
    have "d \<notin> fst ` set (get_attendance (mark_all calls w))" by auto
    then show ?thesis by (rule names_for_absent)
  qed
qed

theorem get_attendance_absent_date_witness:
  "attendance_file new_install = None
   \<and> get_attendance new_install = []
   \<and> ''2024-01-03'' \<notin> fst ` set (get_attendance new_install)
   \<and> names_for ''2024-01-03'' (get_attendance new_install) = []
   \<and> ''2024-01-03'' \<notin> fst ` set [(''2024-01-01'', ''A''), (''2024-01-02'', ''B'')]
   \<and> names_for ''2024-01-03''
        (get_attendance (mark_all [(''2024-01-01'', ''A''), (''2024-01-02'', ''B'')] new_install))
       = []"
  using get_attendance_absent_date
          [of new_install "''2024-01-03''" "[(''2024-01-01'', ''A''), (''2024-01-02'', ''B'')]"]
  by (simp add: new_install_def get_attendance_def)

section \<open>The matching loop\<close>

subsection \<open>Steps of the loop\<close>

lemma sqrt_25: "sqrt 25 = 5"
  by (rule real_sqrt_unique) simp_all

lemma cosine_similarity:
  "length ref_emb = length rec_emb \<Longrightarrow> cosine ref_emb rec_emb = Inr (1 - similarity ref_emb rec_emb)"
  by (simp add: cosine_def similarity_def)

lemma cosine_mismatch:
  "length ref_emb \<noteq> length rec_emb \<Longrightarrow> cosine ref_emb rec_emb = Inl ValueError"
  by (simp add: cosine_def)

lemma recognize_loop_skip:
  "no_match_among pre rec_emb w \<Longrightarrow>
     recognize_loop today (pre @ items) rec_emb w = recognize_loop today items rec_emb w"
proof (induction pre)
  case Nil
  show ?case by simp
next
  case (Cons p pre)
  obtain n data where p: "p = (n, data)" by (cases p)
  from Cons.prems have rest: "no_match_among pre rec_emb w"
    by (simp add: no_match_among_def)
  from Cons.prems p obtain ref_emb where
    r: "load_embedding n w = Inr ref_emb" "length ref_emb = length rec_emb"
       "similarity ref_emb rec_emb \<le> 0.75"
    by (auto simp: no_match_among_def split: sum.splits)
  from r show ?case unfolding p
    by (simp add: cosine_similarity Cons.IH[OF rest])
qed

lemma recognize_loop_hit:
  assumes "load_embedding n w = Inr ref_emb" "length ref_emb = length rec_emb"
    "similarity ref_emb rec_emb > 0.75" "writable w ATTENDANCE_FILE"
  shows "recognize_loop today ((n, data) # post) rec_emb w
           = Done (Matched n (similarity ref_emb rec_emb)) (world_of (mark_attendance today n w))"
  using assms
  by (cases rule: mark_attendance_cases[of w today n]) (simp_all add: cosine_similarity)

lemma recognize_loop_mismatch:
  assumes "load_embedding n w = Inr ref_emb" "length ref_emb \<noteq> length rec_emb"
  shows "recognize_loop today ((n, data) # post) rec_emb w = Raised ValueError w"
  using assms by (simp add: cosine_mismatch)

lemma recognize_loop_NoMatch:
  "recognize_loop today items rec_emb w = Done NoMatch w' \<Longrightarrow>
     no_match_among items rec_emb w \<and> w' = w"
proof (induction items)
  case Nil
  then show ?case by (simp add: no_match_among_def)
next
  case (Cons p items)
  obtain n data where p: "p = (n, data)" by (cases p)
  from Cons.prems obtain ref_emb where r: "load_embedding n w = Inr ref_emb"
    unfolding p by (cases "load_embedding n w") auto
  with Cons.prems have len: "length ref_emb = length rec_emb"
    unfolding p by (cases "length ref_emb = length rec_emb") (auto simp: cosine_mismatch)
  from Cons.prems r len have low: "similarity ref_emb rec_emb \<le> 0.75"
    and rest: "recognize_loop today items rec_emb w = Done NoMatch w'"
    unfolding p
    by (auto simp: cosine_similarity Let_def split: if_splits outcome.splits)
  from Cons.IH[OF rest] r len low show ?case
    unfolding p by (simp add: no_match_among_def)
qed

lemma recognize_loop_Matched:
  "recognize_loop today items rec_emb w = Done (Matched n s) w' \<Longrightarrow>
     \<exists>pre data post ref_emb.
        items = pre @ (n, data) # post \<and> no_match_among pre rec_emb w
        \<and> load_embedding n w = Inr ref_emb \<and> length ref_emb = length rec_emb
        \<and> s = similarity ref_emb rec_emb \<and> s > 0.75
        \<and> mark_attendance today n w = Done () w'"
proof (induction items)
  case Nil
  then show ?case by simp
next
  case (Cons p items)
  obtain m data where p: "p = (m, data)" by (cases p)
  from Cons.prems obtain ref_emb where r: "load_embedding m w = Inr ref_emb"
    unfolding p by (cases "load_embedding m w") auto
  with Cons.prems have len: "length ref_emb = length rec_emb"
    unfolding p by (cases "length ref_emb = length rec_emb") (auto simp: cosine_mismatch)
  show ?case
  proof (cases "similarity ref_emb rec_emb > 0.75")
    case True
    with Cons.prems r len have "m = n" "s = similarity ref_emb rec_emb"
      "mark_attendance today n w = Done () w'"
      unfolding p by (auto simp: cosine_similarity Let_def split: outcome.splits)
    with r len True have
      "p # items = [] @ (n, data) # items \<and> no_match_among [] rec_emb w
        \<and> load_embedding n w = Inr ref_emb \<and> length ref_emb = length rec_emb
        \<and> s = similarity ref_emb rec_emb \<and> s > 0.75
        \<and> mark_attendance today n w = Done () w'"
      unfolding p by (simp add: no_match_among_def)
    then show ?thesis by blast
  next
    case False
    with Cons.prems r len have "recognize_loop today items rec_emb w = Done (Matched n s) w'"
      unfolding p by (simp add: cosine_similarity Let_def)
    from Cons.IH[OF this] obtain pre data' post ref' where
      h: "items = pre @ (n, data') # post" "no_match_among pre rec_emb w"
        "load_embedding n w = Inr ref'" "length ref' = length rec_emb"
        "s = similarity ref' rec_emb" "s > 0.75" "mark_attendance today n w = Done () w'"
      by blast
    from h(2) r len False have "no_match_among (p # pre) rec_emb w"
      unfolding p by (simp add: no_match_among_def)
    with h have
      "p # items = (p # pre) @ (n, data') # post \<and> no_match_among (p # pre) rec_emb w
        \<and> load_embedding n w = Inr ref' \<and> length ref' = length rec_emb
        \<and> s = similarity ref' rec_emb \<and> s > 0.75
        \<and> mark_attendance today n w = Done () w'"
      by simp
    then show ?thesis by blast
  qed
qed

lemmas path_defs = embedding_path_def EMBED_DIR_def DB_PATH_def path_join_def
  ATTENDANCE_FILE_def STUDENTS_FILE_def

lemmas example_defs = enrolled_def three_students_def mismatch_second_def mismatch_last_def
  blank_def new_install_def students_locked_def

lemma similarity_examples:
  "similarity [0, 1] [1, 0] = 0" "similarity [4, 3] [1, 0] = 4 / 5" "similarity [1, 0] [1, 0] = 1"
  "similarity [0, 1] [-1, 0] = 0" "similarity [4, 3] [-1, 0] = - (4 / 5)"
  "similarity [1, 0] [-1, 0] = - 1"
  by (simp_all add: similarity_def dot_def sqrt_25)

lemma three_students_facts:
  "students three_students = [(''A'', blank ''A'')] @ (''B'', blank ''B'') # [(''C'', blank ''C'')]"
  "no_match_among [(''A'', blank ''A'')] [1, 0] three_students"
  "load_embedding ''B'' three_students = Inr [4, 3]"
  "load_embedding ''C'' three_students = Inr [1, 0]"
  "writable three_students ATTENDANCE_FILE"
  "no_match_among (students three_students) [-1, 0] three_students"
  "world_of (mark_attendance ''2024-01-01'' ''B'' three_students)
     = three_students\<lparr>attendance_file := Some [(''2024-01-01'', [''B''])]\<rparr>"
  by (simp_all add: example_defs path_defs load_embedding_def no_match_among_def
      similarity_examples mark_attendance_def mark_dict_eq)

lemma mismatch_facts:
  "students mismatch_second
     = [(''A'', blank ''A'')] @ (''B'', blank ''B'') # [(''C'', blank ''C'')]"
  "no_match_among [(''A'', blank ''A'')] [1, 0] mismatch_second"
  "load_embedding ''B'' mismatch_second = Inr [1, 0, 0]"
  "load_embedding ''C'' mismatch_second = Inr [1, 0]"
  "students mismatch_last
     = [(''A'', blank ''A'')] @ (''B'', blank ''B'') # [(''C'', blank ''C'')]"
  "no_match_among [(''A'', blank ''A'')] [1, 0] mismatch_last"
  "load_embedding ''B'' mismatch_last = Inr [1, 0]"
  "load_embedding ''C'' mismatch_last = Inr [1, 0, 0]"
  "writable mismatch_last ATTENDANCE_FILE"
  "world_of (mark_attendance ''2024-01-01'' ''B'' mismatch_last)
     = mismatch_last\<lparr>attendance_file := Some [(''2024-01-01'', [''B''])]\<rparr>"
  by (simp_all add: example_defs path_defs load_embedding_def no_match_among_def
      similarity_examples mark_attendance_def mark_dict_eq)

subsection \<open>Which candidate is returned\<close>

text \<open>
  Claim C1, as the code has it. One pass goes through the enrolled students in the order
  of the directory, scores each with one minus the cosine distance, and stops at the first
  whose score is greater than 0.75: it marks that student present and shows the name with
  that score, and the students after it are not scored. It shows "no match" exactly when
  every student has been scored and none is above 0.75, the state unchanged; so always
  when nobody is enrolled. Here every scored student has a stored vector of the length of
  the recorded one, and the ledger file can be written.
\<close>

theorem recognize_first_above_threshold:
  "(students w = [] \<longrightarrow> recognize today rec_emb w = Done NoMatch w)
   \<and> (no_match_among (students w) rec_emb w \<longrightarrow> recognize today rec_emb w = Done NoMatch w)
   \<and> (students w = pre @ (n, data) # post \<and> no_match_among pre rec_emb w
        \<and> load_embedding n w = Inr ref_emb \<and> length ref_emb = length rec_emb
        \<and> similarity ref_emb rec_emb > 0.75 \<and> writable w ATTENDANCE_FILE \<longrightarrow>
      recognize today rec_emb w
        = Done (Matched n (similarity ref_emb rec_emb)) (world_of (mark_attendance today n w)))
   \<and> (recognize today rec_emb w = Done NoMatch w' \<longrightarrow>
        no_match_among (students w) rec_emb w \<and> w' = w)
   \<and> (recognize today rec_emb w = Done (Matched m s) w' \<longrightarrow>
        (\<exists>pre data post ref_emb.
           students w = pre @ (m, data) # post \<and> no_match_among pre rec_emb w
           \<and> load_embedding m w = Inr ref_emb \<and> length ref_emb = length rec_emb
           \<and> s = similarity ref_emb rec_emb \<and> s > 0.75
           \<and> mark_attendance today m w = Done () w'))"
proof (intro conjI impI)
  show "recognize today rec_emb w = Done NoMatch w" if "students w = []"
    using that by (simp add: recognize_def)
  show "recognize today rec_emb w = Done NoMatch w" if "no_match_among (students w) rec_emb w"
    using recognize_loop_skip[OF that, of today "[]"] by (simp add: recognize_def)
  show "recognize today rec_emb w
        = Done (Matched n (similarity ref_emb rec_emb)) (world_of (mark_attendance today n w))"
    if "students w = pre @ (n, data) # post \<and> no_match_among pre rec_emb w
        \<and> load_embedding n w = Inr ref_emb \<and> length ref_emb = length rec_emb
        \<and> similarity ref_emb rec_emb > 0.75 \<and> writable w ATTENDANCE_FILE"
  proof -
    from that have "recognize today rec_emb w
        = recognize_loop today ((n, data) # post) rec_emb w"
      by (simp add: recognize_def recognize_loop_skip del: recognize_loop.simps)
    also from that have "\<dots> = Done (Matched n (similarity ref_emb rec_emb))
        (world_of (mark_attendance today n w))"
      by (intro recognize_loop_hit[where ref_emb=ref_emb]) simp_all
    finally show ?thesis .
  qed
  show "no_match_among (students w) rec_emb w" "w' = w"
    if "recognize today rec_emb w = Done NoMatch w'"
    using recognize_loop_NoMatch[of today "students w" rec_emb w w'] that
    by (simp_all add: recognize_def)
  show "\<exists>pre data post ref_emb.
           students w = pre @ (m, data) # post \<and> no_match_among pre rec_emb w
           \<and> load_embedding m w = Inr ref_emb \<and> length ref_emb = length rec_emb
           \<and> s = similarity ref_emb rec_emb \<and> s > 0.75
           \<and> mark_attendance today m w = Done () w'"
    if "recognize today rec_emb w = Done (Matched m s) w'"
    using that unfolding recognize_def by (rule recognize_loop_Matched)
qed

theorem recognize_first_above_threshold_witness:
  "students three_students = [(''A'', blank ''A'')] @ (''B'', blank ''B'') # [(''C'', blank ''C'')]
   \<and> no_match_among [(''A'', blank ''A'')] [1, 0] three_students
   \<and> load_embedding ''B'' three_students = Inr [4, 3]
   \<and> length [4, 3 :: real] = length [1, 0 :: real]
   \<and> similarity [4, 3] [1, 0] > 0.75
   \<and> writable three_students ATTENDANCE_FILE
   \<and> recognize ''2024-01-01'' [1, 0] three_students
       = Done (Matched ''B'' (4 / 5))
           (three_students\<lparr>attendance_file := Some [(''2024-01-01'', [''B''])]\<rparr>)
   \<and> no_match_among (students three_students) [-1, 0] three_students
   \<and> recognize ''2024-01-01'' [-1, 0] three_students = Done NoMatch three_students"
  using recognize_first_above_threshold
          [of three_students "''2024-01-01''" "[1, 0]" "[(''A'', blank ''A'')]" "''B''"
              "blank ''B''" "[(''C'', blank ''C'')]" "[4, 3]"]
        recognize_first_above_threshold [of three_students "''2024-01-01''" "[-1, 0]"]
        three_students_facts
  by (simp add: similarity_examples)

text \<open>
  The returned candidate need not have the maximum score: with "B" at 0.8 before "C" at 1,
  the pass returns "B".
\<close>

theorem recognize_maximum_counterexample:
  "recognize ''2024-01-01'' [1, 0] three_students
     = Done (Matched ''B'' (4 / 5))
         (three_students\<lparr>attendance_file := Some [(''2024-01-01'', [''B''])]\<rparr>)
   \<and> (''C'', blank ''C'') \<in> set (students three_students)
   \<and> load_embedding ''C'' three_students = Inr [1, 0]
   \<and> similarity [1, 0] [1, 0] = 1
   \<and> (4 / 5 :: real) < 1"
proof -
  have "recognize_loop ''2024-01-01''
          ([(''A'', blank ''A'')] @ (''B'', blank ''B'') # [(''C'', blank ''C'')]) [1, 0] three_students
        = Done (Matched ''B'' (similarity [4, 3] [1, 0]))
            (world_of (mark_attendance ''2024-01-01'' ''B'' three_students))"
    by (simp only: recognize_loop_skip[OF three_students_facts(2)])
       (rule recognize_loop_hit[where ref_emb="[4, 3]"],
        simp_all add: three_students_facts similarity_examples)
  then show ?thesis
    by (simp add: recognize_def three_students_facts similarity_examples)
qed

subsection \<open>Vectors of different length\<close>

text \<open>
  Claim C4, as the code has it. The loop handles no error. When the pass reaches, before
  any match, a student whose stored vector has another length than the recorded one, the
  \<open>ValueError\<close> of the cosine distance ends the whole pass: no later student is scored and
  nothing is marked. The students after the first match are not scored, so a vector of
  another length there changes nothing: the pass gives what it gives without them.
\<close>

theorem dimension_mismatch_aborts:
  "(students w = pre @ (n, data) # post \<and> no_match_among pre rec_emb w
      \<and> load_embedding n w = Inr ref_emb \<and> length ref_emb \<noteq> length rec_emb \<longrightarrow>
    recognize today rec_emb w = Raised ValueError w)
   \<and> (students w = pre @ (n, data) # post \<and> no_match_among pre rec_emb w
      \<and> load_embedding n w = Inr ref_emb \<and> length ref_emb = length rec_emb
      \<and> similarity ref_emb rec_emb > 0.75 \<and> writable w ATTENDANCE_FILE \<longrightarrow>
    recognize today rec_emb w
      = recognize_loop today [(n, data)] rec_emb w)"
proof (intro conjI impI)
  show "recognize today rec_emb w = Raised ValueError w"
    if "students w = pre @ (n, data) # post \<and> no_match_among pre rec_emb w
      \<and> load_embedding n w = Inr ref_emb \<and> length ref_emb \<noteq> length rec_emb"
  proof -
    from that have "recognize today rec_emb w
        = recognize_loop today ((n, data) # post) rec_emb w"
      by (simp add: recognize_def recognize_loop_skip del: recognize_loop.simps)
    also from that have "\<dots> = Raised ValueError w"
      by (intro recognize_loop_mismatch[where ref_emb=ref_emb]) simp_all
    finally show ?thesis .
  qed
  show "recognize today rec_emb w = recognize_loop today [(n, data)] rec_emb w"
    if "students w = pre @ (n, data) # post \<and> no_match_among pre rec_emb w
      \<and> load_embedding n w = Inr ref_emb \<and> length ref_emb = length rec_emb
      \<and> similarity ref_emb rec_emb > 0.75 \<and> writable w ATTENDANCE_FILE"
  proof -
    from that have "recognize today rec_emb w
        = recognize_loop today ((n, data) # post) rec_emb w"
      by (simp add: recognize_def recognize_loop_skip del: recognize_loop.simps)
    also from that have "\<dots> = Done (Matched n (similarity ref_emb rec_emb))
        (world_of (mark_attendance today n w))"
      by (intro recognize_loop_hit[where ref_emb=ref_emb]) simp_all
    also from that have "\<dots> = recognize_loop today [(n, data)] rec_emb w"
      by (intro recognize_loop_hit[where ref_emb=ref_emb, symmetric]) simp_all
    finally show ?thesis .
  qed
qed

theorem dimension_mismatch_aborts_witness:
  "students mismatch_second
     = [(''A'', blank ''A'')] @ (''B'', blank ''B'') # [(''C'', blank ''C'')]
   \<and> no_match_among [(''A'', blank ''A'')] [1, 0] mismatch_second
   \<and> load_embedding ''B'' mismatch_second = Inr [1, 0, 0]
   \<and> length [1, 0, 0 :: real] \<noteq> length [1, 0 :: real]
   \<and> recognize ''2024-01-01'' [1, 0] mismatch_second = Raised ValueError mismatch_second
   \<and> students mismatch_last
     = [(''A'', blank ''A'')] @ (''B'', blank ''B'') # [(''C'', blank ''C'')]
   \<and> no_match_among [(''A'', blank ''A'')] [1, 0] mismatch_last
   \<and> load_embedding ''B'' mismatch_last = Inr [1, 0]
   \<and> similarity [1, 0] [1, 0] > 0.75
   \<and> writable mismatch_last ATTENDANCE_FILE
   \<and> load_embedding ''C'' mismatch_last = Inr [1, 0, 0]
   \<and> recognize ''2024-01-01'' [1, 0] mismatch_last
       = recognize_loop ''2024-01-01'' [(''B'', blank ''B'')] [1, 0] mismatch_last"
  using dimension_mismatch_aborts
          [of mismatch_second "[(''A'', blank ''A'')]" "''B''" "blank ''B''"
              "[(''C'', blank ''C'')]" "[1, 0]" "[1, 0, 0]" "''2024-01-01''"]
        dimension_mismatch_aborts
          [of mismatch_last "[(''A'', blank ''A'')]" "''B''" "blank ''B''"
              "[(''C'', blank ''C'')]" "[1, 0]" "[1, 0]" "''2024-01-01''"]
        mismatch_facts
  by (simp add: similarity_examples del: recognize_loop.simps)

text \<open>
  The failure is not for that candidate only: "C" is enrolled with the recorded vector
  itself, and the pass raises at "B" before reaching it.
\<close>

theorem dimension_mismatch_counterexample:
  "recognize ''2024-01-01'' [1, 0] mismatch_second = Raised ValueError mismatch_second
   \<and> (''C'', blank ''C'') \<in> set (students mismatch_second)
   \<and> load_embedding ''C'' mismatch_second = Inr [1, 0]
   \<and> similarity [1, 0] [1, 0] = 1"
proof -
  have "recognize_loop ''2024-01-01''
          ([(''A'', blank ''A'')] @ (''B'', blank ''B'') # [(''C'', blank ''C'')]) [1, 0]
          mismatch_second
        = Raised ValueError mismatch_second"
    by (simp only: recognize_loop_skip[OF mismatch_facts(2)])
       (rule recognize_loop_mismatch[where ref_emb="[1, 0, 0]"], simp_all add: mismatch_facts)
  then show ?thesis
    by (simp add: recognize_def mismatch_facts similarity_examples)
qed

section \<open>Enrollment and deletion\<close>

subsection \<open>The handlers by cases\<close>

lemma enroll_cases:
  "enroll n s d y r c emb w =
     (if \<not> writable w (embedding_path n) then Raised OSError w
      else if \<not> writable w STUDENTS_FILE then
        Raised OSError
          (w\<lparr>embed_files := (embed_files w)(embedding_path n \<mapsto> emb),
             students := AList.update n
               \<lparr>name = n, std = s, div' = d, year = y, roll_no = r, emergency_contact = c\<rparr>
               (students w)\<rparr>)
      else
        Done ()
          (w\<lparr>embed_files := (embed_files w)(embedding_path n \<mapsto> emb),
             students := AList.update n
               \<lparr>name = n, std = s, div' = d, year = y, roll_no = r, emergency_contact = c\<rparr>
               (students w),
             students_file := Some (AList.update n
               \<lparr>name = n, std = s, div' = d, year = y, roll_no = r, emergency_contact = c\<rparr>
               (students w))\<rparr>))"
  by (simp add: enroll_def save_embedding_def save_students_def)

lemma delete_button_cases:
  "delete_button info w =
     (if name info \<notin> fst ` set (students w) then Done () w
      else if \<not> writable w STUDENTS_FILE then
        Raised OSError (w\<lparr>students := AList.delete (name info) (students w)\<rparr>)
      else
        Done ()
          (w\<lparr>students := AList.delete (name info) (students w),
             students_file := Some (AList.delete (name info) (students w))\<rparr>))"
  by (simp add: delete_button_def save_students_def load_students_def)

lemma students_locked_facts:
  "writable students_locked (embedding_path ''A'')"
  "\<not> writable students_locked STUDENTS_FILE"
  "\<not> writable (students_locked\<lparr>writable := (\<lambda>p. False)\<rparr>) (embedding_path ''A'')"
  by (simp_all add: example_defs path_defs)

lemma one_student_facts:
  "writable (enrolled [(''A'', [1, 0])]) STUDENTS_FILE"
  "name (blank ''A'') = ''A''"
  "''A'' \<in> fst ` set (students (enrolled [(''A'', [1, 0])]))"
  "load_embedding ''A'' (enrolled [(''A'', [1, 0])]) = Inr [1, 0]"
  "map_of (students (enrolled [(''A'', [1, 0])])) ''A'' = Some (blank ''A'')"
  by (simp_all add: example_defs load_embedding_def)

lemma keyed_by_name_update:
  "keyed_by_name ss \<Longrightarrow> name info = k \<Longrightarrow> keyed_by_name (AList.update k info ss)"
  by (induction ss) (auto simp: keyed_by_name_def)

lemma keyed_by_name_delete:
  "keyed_by_name ss \<Longrightarrow> keyed_by_name (AList.delete k ss)"
  by (induction ss) (auto simp: keyed_by_name_def)

text \<open>The example of three students is what three enrollments on a new installation give.\<close>

lemma enrolled_reached:
  "world_of (enroll ''C'' ''5'' ''A'' ''2024'' ''1'' ''100'' [1, 0]
     (world_of (enroll ''B'' ''5'' ''A'' ''2024'' ''1'' ''100'' [4, 3]
       (world_of (enroll ''A'' ''5'' ''A'' ''2024'' ''1'' ''100'' [0, 1] new_install)))))
   = three_students"
  by (simp add: enroll_cases example_defs path_defs fun_eq_iff)

subsection \<open>Round trip\<close>

text \<open>
  Claim C8. After an enrollment whose two files can be written, looking the name up in
  the directory gives the record that was entered, in memory and after the script has
  loaded \<^verbatim>\<open>students.json\<close> again, and loading the embedding of the name gives the vector
  that was saved.
\<close>

theorem enroll_round_trip:
  "writable w (embedding_path n) \<and> writable w STUDENTS_FILE \<longrightarrow>
     (\<exists>w'. enroll n s d y r c emb w = Done () w'
        \<and> map_of (students w') n
            = Some \<lparr>name = n, std = s, div' = d, year = y, roll_no = r, emergency_contact = c\<rparr>
        \<and> map_of (students (load_students w')) n
            = Some \<lparr>name = n, std = s, div' = d, year = y, roll_no = r, emergency_contact = c\<rparr>
        \<and> load_embedding n w' = Inr emb)"
  by (simp add: enroll_cases update_conv' load_students_def load_embedding_def)

theorem enroll_round_trip_witness:
  "writable new_install (embedding_path ''A'') \<and> writable new_install STUDENTS_FILE
   \<and> (\<exists>w'. enroll ''A'' ''5'' ''A'' ''2024'' ''1'' ''100'' [1, 0] new_install = Done () w'
        \<and> map_of (students w') ''A'' = Some (blank ''A'')
        \<and> map_of (students (load_students w')) ''A'' = Some (blank ''A'')
        \<and> load_embedding ''A'' w' = Inr [1, 0])"
  using enroll_round_trip
          [of new_install "''A''" "''5''" "''A''" "''2024''" "''1''" "''100''" "[1, 0]"]
  by (simp add: new_install_def blank_def)

subsection \<open>Order of the two writes\<close>

text \<open>
  Claim C3, as the code has it. Enrollment writes the embedding first and the directory
  second, and rolls nothing back. When the embedding cannot be written the run raises and
  the state is unchanged. When the embedding can be written and \<^verbatim>\<open>students.json\<close> cannot,
  the run raises, \<^verbatim>\<open>students.json\<close> is as before and the embedding file stays written.
  When both can be written, both are.
\<close>

theorem enroll_write_order:
  "(\<not> writable w (embedding_path n) \<longrightarrow> enroll n s d y r c emb w = Raised OSError w)
   \<and> (writable w (embedding_path n) \<and> \<not> writable w STUDENTS_FILE \<longrightarrow>
        (\<exists>w'. enroll n s d y r c emb w = Raised OSError w'
           \<and> students_file w' = students_file w
           \<and> load_embedding n w' = Inr emb))
   \<and> (writable w (embedding_path n) \<and> writable w STUDENTS_FILE \<longrightarrow>
        (\<exists>w'. enroll n s d y r c emb w = Done () w'
           \<and> (\<exists>ss. students_file w' = Some ss \<and> map_of ss n
                = Some \<lparr>name = n, std = s, div' = d, year = y, roll_no = r,
                        emergency_contact = c\<rparr>)
           \<and> load_embedding n w' = Inr emb))"
  by (simp add: enroll_cases update_conv' load_embedding_def)

theorem enroll_write_order_witness:
  "\<not> writable (students_locked\<lparr>writable := (\<lambda>p. False)\<rparr>) (embedding_path ''A'')
   \<and> enroll ''A'' ''5'' ''A'' ''2024'' ''1'' ''100'' [1, 0]
        (students_locked\<lparr>writable := (\<lambda>p. False)\<rparr>)
       = Raised OSError (students_locked\<lparr>writable := (\<lambda>p. False)\<rparr>)
   \<and> writable students_locked (embedding_path ''A'') \<and> \<not> writable students_locked STUDENTS_FILE
   \<and> (\<exists>w'. enroll ''A'' ''5'' ''A'' ''2024'' ''1'' ''100'' [1, 0] students_locked
               = Raised OSError w'
           \<and> students_file w' = students_file students_locked
           \<and> load_embedding ''A'' w' = Inr [1, 0])
   \<and> writable new_install (embedding_path ''A'') \<and> writable new_install STUDENTS_FILE
   \<and> (\<exists>w'. enroll ''A'' ''5'' ''A'' ''2024'' ''1'' ''100'' [1, 0] new_install = Done () w'
           \<and> (\<exists>ss. students_file w' = Some ss \<and> map_of ss ''A'' = Some (blank ''A''))
           \<and> load_embedding ''A'' w' = Inr [1, 0])"
  using enroll_write_order
          [of "students_locked\<lparr>writable := (\<lambda>p. False)\<rparr>" "''A''" "''5''" "''A''" "''2024''"
              "''1''" "''100''" "[1, 0]"]
        enroll_write_order
          [of students_locked "''A''" "''5''" "''A''" "''2024''" "''1''" "''100''" "[1, 0]"]
        enroll_write_order
          [of new_install "''A''" "''5''" "''A''" "''2024''" "''1''" "''100''" "[1, 0]"]
        students_locked_facts
  by (simp add: new_install_def blank_def)

text \<open>
  The embedding is not written only after the directory: on a new installation whose
  \<^verbatim>\<open>students.json\<close> cannot be written, enrolling "A" raises and leaves the embedding of
  "A" on disk with no directory file.
\<close>

theorem enroll_not_atomic_counterexample:
  "enroll ''A'' ''5'' ''A'' ''2024'' ''1'' ''100'' [1, 0] students_locked
     = Raised OSError
         (students_locked\<lparr>embed_files := [embedding_path ''A'' \<mapsto> [1, 0]],
            students := [(''A'', blank ''A'')]\<rparr>)
   \<and> load_embedding ''A''
        (world_of (enroll ''A'' ''5'' ''A'' ''2024'' ''1'' ''100'' [1, 0] students_locked))
       = Inr [1, 0]
   \<and> students_file
        (world_of (enroll ''A'' ''5'' ''A'' ''2024'' ''1'' ''100'' [1, 0] students_locked))
       = None
   \<and> load_embedding ''A'' students_locked = Inl FileNotFoundError"
  by (simp add: enroll_cases students_locked_facts load_embedding_def)
     (simp add: example_defs)

subsection \<open>Deletion\<close>

text \<open>
  Claim C2, as the code has it. Deleting a student removes the record from the directory
  only: afterwards the name is found neither in memory nor in \<^verbatim>\<open>students.json\<close>, no
  embedding file is touched, and loading the embedding of the name gives what it gave
  before.
\<close>

theorem delete_removes_metadata_only:
  "embed_files (world_of (delete_button info w)) = embed_files w
   \<and> load_embedding n (world_of (delete_button info w)) = load_embedding n w
   \<and> (writable w STUDENTS_FILE \<longrightarrow>
        (\<exists>w'. delete_button info w = Done () w'
           \<and> map_of (students w') (name info) = None))
   \<and> (writable w STUDENTS_FILE \<and> name info \<in> fst ` set (students w) \<longrightarrow>
        (\<exists>ss. students_file (world_of (delete_button info w)) = Some ss
           \<and> map_of ss (name info) = None))"
proof (cases "name info \<in> fst ` set (students w)")
  case True
  then show ?thesis
    by (simp add: delete_button_cases load_embedding_def delete_conv')
next
  case False
  then have "map_of (students w) (name info) = None"
    by (simp add: map_of_eq_None_iff)
  with False show ?thesis
    by (simp add: delete_button_cases load_embedding_def)
qed

theorem delete_removes_metadata_only_witness:
  "writable (enrolled [(''A'', [1, 0])]) STUDENTS_FILE
   \<and> ''A'' \<in> fst ` set (students (enrolled [(''A'', [1, 0])]))
   \<and> load_embedding ''A'' (world_of (delete_button (blank ''A'') (enrolled [(''A'', [1, 0])])))
       = Inr [1, 0]
   \<and> (\<exists>w'. delete_button (blank ''A'') (enrolled [(''A'', [1, 0])]) = Done () w'
           \<and> map_of (students w') ''A'' = None)
   \<and> (\<exists>ss. students_file (world_of (delete_button (blank ''A'') (enrolled [(''A'', [1, 0])])))
              = Some ss
           \<and> map_of ss ''A'' = None)"
  using delete_removes_metadata_only [of "blank ''A''" "enrolled [(''A'', [1, 0])]" "''A''"]
        one_student_facts
  by simp

text \<open>
  The stored embedding outlives the deletion: after "A" is deleted, loading the embedding
  of "A" still returns the vector of the enrollment.
\<close>

theorem delete_orphan_embedding_counterexample:
  "map_of (students (enrolled [(''A'', [1, 0])])) ''A'' = Some (blank ''A'')
   \<and> load_embedding ''A'' (enrolled [(''A'', [1, 0])]) = Inr [1, 0]
   \<and> delete_button (blank ''A'') (enrolled [(''A'', [1, 0])])
       = Done () (enrolled [(''A'', [1, 0])]\<lparr>students := [], students_file := Some []\<rparr>)
   \<and> map_of (students (world_of (delete_button (blank ''A'') (enrolled [(''A'', [1, 0])])))) ''A''
       = None
   \<and> load_embedding ''A'' (world_of (delete_button (blank ''A'') (enrolled [(''A'', [1, 0])])))
       = Inr [1, 0]"
  by (simp add: delete_button_cases one_student_facts load_embedding_def)
     (simp add: example_defs)

subsection \<open>Keys and names\<close>

text \<open>
  Claim C10. If every record of the directory is stored under its own name, in memory and
  in \<^verbatim>\<open>students.json\<close>, then so it is after an enrollment, after a press of the enroll
  button, after a deletion, and after the script has loaded the directory again.
\<close>

theorem directory_stays_keyed_by_name:
  "directory_keyed w \<longrightarrow>
     directory_keyed (world_of (enroll n s d y r c emb w))
     \<and> directory_keyed (world_of (enroll_button pressed n s d y r c emb w))
     \<and> directory_keyed (world_of (delete_button info w))
     \<and> directory_keyed (load_students w)"
proof
  assume inv: "directory_keyed w"
  then have mem: "keyed_by_name (students w)"
    by (simp add: directory_keyed_def)
  let ?info = "\<lparr>name = n, std = s, div' = d, year = y, roll_no = r, emergency_contact = c\<rparr>"
  from mem have up: "keyed_by_name (AList.update n ?info (students w))"
    by (rule keyed_by_name_update) simp
  from mem have del: "keyed_by_name (AList.delete (name info) (students w))"
    by (rule keyed_by_name_delete)
  from inv up have e: "directory_keyed (world_of (enroll n s d y r c emb w))"
    by (simp add: enroll_cases directory_keyed_def)
  from inv e have b: "directory_keyed (world_of (enroll_button pressed n s d y r c emb w))"
    by (simp add: enroll_button_def)
  from inv del have x: "directory_keyed (world_of (delete_button info w))"
    by (simp add: delete_button_cases directory_keyed_def)
  from inv have l: "directory_keyed (load_students w)"
    by (cases "students_file w") (simp_all add: load_students_def directory_keyed_def keyed_by_name_def)
  from e b x l show
    "directory_keyed (world_of (enroll n s d y r c emb w))
     \<and> directory_keyed (world_of (enroll_button pressed n s d y r c emb w))
     \<and> directory_keyed (world_of (delete_button info w))
     \<and> directory_keyed (load_students w)"
    by simp
qed

theorem directory_stays_keyed_by_name_witness:
  "directory_keyed (enrolled [(''A'', [1, 0])])
   \<and> directory_keyed
        (world_of (enroll ''B'' ''5'' ''A'' ''2024'' ''2'' ''100'' [0, 1] (enrolled [(''A'', [1, 0])])))
   \<and> directory_keyed
        (world_of (enroll_button True ''B'' ''5'' ''A'' ''2024'' ''2'' ''100'' [0, 1]
                     (enrolled [(''A'', [1, 0])])))
   \<and> directory_keyed (world_of (delete_button (blank ''A'') (enrolled [(''A'', [1, 0])])))
   \<and> directory_keyed (load_students (enrolled [(''A'', [1, 0])]))"
proof -
  have h: "directory_keyed (enrolled [(''A'', [1, 0])])"
    by (simp add: directory_keyed_def keyed_by_name_def enrolled_def blank_def)
  from h directory_stays_keyed_by_name
           [of "enrolled [(''A'', [1, 0])]" "''B''" "''5''" "''A''" "''2024''" "''2''" "''100''"
               "[0, 1]" True "blank ''A''"]
  show ?thesis by blast
qed

end
